theory Spec2Isabelle
  imports Main "HOL-Library.Sublist"
begin

section \<open>Strings\<close>

text \<open>
  A JavaScript string is a sequence of UTF-16 code units. The model takes the code
  units below 256 (a \<^typ>\<open>char\<close> each), on which the three library methods the code
  calls are exact:
  \<^item> \<^verbatim>\<open>String.prototype.trim\<close> strips the white space and line terminators
    TAB, LF, VT, FF, CR, SP and NBSP from both ends;
  \<^item> \<^verbatim>\<open>String.prototype.toLowerCase\<close> maps A..Z and the Latin-1 capitals
    U+00C0..U+00DE (the multiplication sign U+00D7 apart) to the unit 32 above;
  \<^item> \<^verbatim>\<open>includes\<close> and \<^verbatim>\<open>endsWith\<close> test for a contiguous substring and a
    suffix.
\<close>

definition isWhiteSpace :: "char \<Rightarrow> bool" where
  "isWhiteSpace c = ((of_char c :: nat) \<in> {9, 10, 11, 12, 13, 32, 160})"

definition trim :: "string \<Rightarrow> string" where
  "trim s = rev (dropWhile isWhiteSpace (rev (dropWhile isWhiteSpace s)))"

definition toLowerCaseUnit :: "char \<Rightarrow> char" where
  "toLowerCaseUnit c =
     (let n = (of_char c :: nat) in
      if (65 \<le> n \<and> n \<le> 90) \<or> (192 \<le> n \<and> n \<le> 222 \<and> n \<noteq> 215)
      then char_of (n + 32) else c)"

definition toLowerCase :: "string \<Rightarrow> string" where
  "toLowerCase s = map toLowerCaseUnit s"

definition includesStr :: "string \<Rightarrow> string \<Rightarrow> bool" where
  "includesStr s t = sublist t s"

definition endsWith :: "string \<Rightarrow> string \<Rightarrow> bool" where
  "endsWith s t = suffix t s"


section \<open>Data of the search component\<close>

text \<open>
  \<^verbatim>\<open>UserRole\<close> and \<^verbatim>\<open>SearchResult\<close> are imported from \<^verbatim>\<open>../types\<close>;
  the members of the enum are the four that the components name. A link is what the
  response schema of \<^verbatim>\<open>validateAndSearch\<close> lists; a search result is the link
  spread into an object with the three derived fields.
\<close>

datatype UserRole = UNSET | RESEARCHER | STUDENT | TEACHER

record link =
  title :: string
  url :: string
  snippet :: string
  thumbnailUrl :: "string option"

record SearchResult = link +
  isTrusted :: bool
  isBlocked :: bool
  blockReason :: string


section \<open>The content filter of \<^verbatim>\<open>handleSearch\<close>\<close>

text \<open>
  The body of the arrow function given to \<^verbatim>\<open>suggestedLinks.map\<close>, one definition
  for each \<^verbatim>\<open>const\<close> of the source. \<^verbatim>\<open>BLOCKED_TLDS\<close> and
  \<^verbatim>\<open>BLOCKED_SITES\<close> are imported from \<^verbatim>\<open>../constants\<close>, so the two lists are
  parameters. The argument \<open>u\<close> is the lower-cased URL of the link.
\<close>

definition isBlockedTLD :: "string list \<Rightarrow> string \<Rightarrow> bool" where
  "isBlockedTLD BLOCKED_TLDS u = list_ex (\<lambda>tld. endsWith u tld) BLOCKED_TLDS"

definition isBlockedSite :: "string list \<Rightarrow> string \<Rightarrow> bool" where
  "isBlockedSite BLOCKED_SITES u = list_ex (\<lambda>site. includesStr u site) BLOCKED_SITES"

definition isYoutube :: "string \<Rightarrow> bool" where
  "isYoutube u = (includesStr u ''youtube.com'' \<or> includesStr u ''youtu.be'')"

definition isLearningPath :: "string \<Rightarrow> bool" where
  "isLearningPath u = includesStr u ''youtube.com/learning''"

definition isAllowedRole :: "UserRole \<Rightarrow> bool" where
  "isAllowedRole role = (role = STUDENT \<or> role = TEACHER)"

definition isExplicitVideoSearch :: "string \<Rightarrow> bool" where
  "isExplicitVideoSearch searchQuery =
     (includesStr (toLowerCase searchQuery) ''video''
      \<or> includesStr (toLowerCase searchQuery) ''youtube'')"

definition allowYoutubeException :: "UserRole \<Rightarrow> string \<Rightarrow> string \<Rightarrow> bool" where
  "allowYoutubeException role searchQuery u =
     (isAllowedRole role \<and> (isLearningPath u \<or> isExplicitVideoSearch searchQuery))"

definition classifyLink ::
  "string list \<Rightarrow> string list \<Rightarrow> UserRole \<Rightarrow> string \<Rightarrow> link \<Rightarrow> SearchResult" where
  "classifyLink BLOCKED_TLDS BLOCKED_SITES role searchQuery l =
     (let u = toLowerCase (url l);
          blocked = (isBlockedTLD BLOCKED_TLDS u \<or> isBlockedSite BLOCKED_SITES u
                     \<or> (isYoutube u \<and> \<not> allowYoutubeException role searchQuery u))
      in \<lparr> title = title l, url = url l, snippet = snippet l,
           thumbnailUrl = thumbnailUrl l,
           isTrusted = (includesStr u ''.gov'' \<or> includesStr u ''.edu''
                        \<or> includesStr u ''.org''),
           isBlocked = blocked,
           blockReason = (if blocked then ''Restricted by focus filter.'' else '''') \<rparr>)"


section \<open>The oracle client \<^verbatim>\<open>validateAndSearch\<close>\<close>

text \<open>
  \<^verbatim>\<open>validateAndSearch(query, role)\<close> awaits one call of the external model, with
  a prompt built from the query, the role and \<^verbatim>\<open>ROLE_FOCUS[role] || ''\<close>, and
  returns \<^verbatim>\<open>JSON.parse(response.text)\<close>. It checks nothing about the parsed value:
  the schema is only sent along with the request.

  The external call is the parameter \<open>generateContent\<close>, from the query and the role
  to the text of the response (\<open>None\<close> when the awaited call rejects or the response
  carries no text, in which case \<^verbatim>\<open>JSON.parse\<close> throws). \<^verbatim>\<open>JSON.parse\<close> is the
  parameter \<open>parse\<close>, \<open>None\<close> on a syntax error.

  A parsed value is read by \<^verbatim>\<open>handleSearch\<close> through three properties only, so it
  is either \<^verbatim>\<open>null\<close>, on which reading a property throws, or a value with each of
  the three properties present or absent (a number, a string or an array has none of
  them). \<^verbatim>\<open>isValid\<close> is read for its truthiness. An element of
  \<^verbatim>\<open>suggestedLinks\<close> is \<open>Some l\<close> when its \<^verbatim>\<open>url\<close> is a string and \<open>None\<close>
  when it is not, where \<^verbatim>\<open>link.url.toLowerCase()\<close> throws.
\<close>

record ValidationResponse =
  isValid :: "bool option"
  reason :: "string option"
  suggestedLinks :: "link option list option"

datatype parsed = JNull | JObject ValidationResponse

datatype 'a awaited = Rejected | Resolved 'a

definition validateAndSearch ::
  "(string \<Rightarrow> UserRole \<Rightarrow> string option) \<Rightarrow> (string \<Rightarrow> parsed option)
   \<Rightarrow> string \<Rightarrow> UserRole \<Rightarrow> parsed awaited" where
  "validateAndSearch generateContent parse searchQuery role =
     (case generateContent searchQuery role of
        None \<Rightarrow> Rejected
      | Some resultText \<Rightarrow>
          (case parse resultText of
             None \<Rightarrow> Rejected
           | Some v \<Rightarrow> Resolved v))"


section \<open>The search operation \<^verbatim>\<open>handleSearch\<close>\<close>

text \<open>
  The state of the \<^verbatim>\<open>SearchMock\<close> component is its seven \<^verbatim>\<open>useState\<close> cells.
  The history list belongs to the parent: the component changes it only by calling the
  \<^verbatim>\<open>onAddHistory\<close> property, so \<^verbatim>\<open>handleSearch\<close> returns, next to the new
  state, the calls it made to its two collaborators, in order.
\<close>

record SearchMock =
  query :: string
  loading :: bool
  allResults :: "SearchResult list"
  visibleCount :: nat
  error :: "string option"
  showHistoryView :: bool
  historyFilter :: string

datatype effect = ValidateAndSearch string UserRole | OnAddHistory string

text \<open>\<^verbatim>\<open>const searchQuery = explicitQuery || query\<close>: an absent or empty explicit query
  is falsy.\<close>

definition isFalsy :: "string option \<Rightarrow> bool" where
  "isFalsy explicitQuery = (explicitQuery = None \<or> explicitQuery = Some [])"

definition searchQueryOf :: "string option \<Rightarrow> SearchMock \<Rightarrow> string" where
  "searchQueryOf explicitQuery s =
     (case explicitQuery of
        None \<Rightarrow> query s
      | Some q \<Rightarrow> if q = [] then query s else q)"

text \<open>The \<^verbatim>\<open>catch\<close> block followed by \<^verbatim>\<open>finally\<close>.\<close>

definition searchFailed :: "SearchMock \<Rightarrow> SearchMock" where
  "searchFailed s =
     s\<lparr> error := Some ''Search failed. Please try again later.'', loading := False \<rparr>"

text \<open>\<^verbatim>\<open>suggestedLinks.map\<close>: the results in the order of the links, or \<open>None\<close> when
  the arrow function throws on an element.\<close>

definition mapLinks ::
  "string list \<Rightarrow> string list \<Rightarrow> UserRole \<Rightarrow> string \<Rightarrow> link option list
   \<Rightarrow> SearchResult list option" where
  "mapLinks BLOCKED_TLDS BLOCKED_SITES role searchQuery ls =
     those (map (map_option (classifyLink BLOCKED_TLDS BLOCKED_SITES role searchQuery)) ls)"

text \<open>
  The optional form event \<open>e\<close> only gets its default action prevented, which touches
  neither the state nor a collaborator; it is not a parameter of the model. The state
  returned is the state after the promise of \<^verbatim>\<open>handleSearch\<close> has settled.
\<close>

definition handleSearch ::
  "(string \<Rightarrow> UserRole \<Rightarrow> string option) \<Rightarrow> (string \<Rightarrow> parsed option)
   \<Rightarrow> string list \<Rightarrow> string list \<Rightarrow> UserRole \<Rightarrow> string option \<Rightarrow> SearchMock
   \<Rightarrow> SearchMock \<times> effect list" where
  "handleSearch generateContent parse BLOCKED_TLDS BLOCKED_SITES role explicitQuery s =
     (let searchQuery = searchQueryOf explicitQuery s in
      if trim searchQuery = [] then (s, [])
      else
        let s1 = s\<lparr> loading := True, error := None, allResults := [],
                    visibleCount := 6, showHistoryView := False \<rparr>;
            s2 = (if isFalsy explicitQuery then s1\<lparr> query := searchQuery \<rparr> else s1)
        in
          case validateAndSearch generateContent parse searchQuery role of
            Rejected \<Rightarrow> (searchFailed s2, [ValidateAndSearch searchQuery role])
          | Resolved JNull \<Rightarrow> (searchFailed s2, [ValidateAndSearch searchQuery role])
          | Resolved (JObject aiResponse) \<Rightarrow>
              if isValid aiResponse \<noteq> Some True
              then (s2\<lparr> error := reason aiResponse, loading := False \<rparr>,
                    [ValidateAndSearch searchQuery role])
              else
                (case suggestedLinks aiResponse of
                   None \<Rightarrow>
                     (searchFailed s2,
                      [ValidateAndSearch searchQuery role, OnAddHistory searchQuery])
                 | Some ls \<Rightarrow>
                     (case mapLinks BLOCKED_TLDS BLOCKED_SITES role searchQuery ls of
                        None \<Rightarrow>
                          (searchFailed s2,
                           [ValidateAndSearch searchQuery role, OnAddHistory searchQuery])
                      | Some results \<Rightarrow>
                          (s2\<lparr> allResults := results, loading := False \<rparr>,
                           [ValidateAndSearch searchQuery role,
                            OnAddHistory searchQuery]))))"

text \<open>
  A query is validated when the awaited reply passes the test
  \<^verbatim>\<open>if (!aiResponse.isValid)\<close>. \<open>historyCalls\<close> and \<open>oracleCalls\<close> read the
  arguments of the calls of \<^verbatim>\<open>onAddHistory\<close> and of
  \<^verbatim>\<open>validateAndSearch\<close> off the effects.
\<close>

definition validated :: "parsed awaited \<Rightarrow> bool" where
  "validated a =
     (case a of
        Rejected \<Rightarrow> False
      | Resolved JNull \<Rightarrow> False
      | Resolved (JObject aiResponse) \<Rightarrow> isValid aiResponse = Some True)"

definition historyCalls :: "effect list \<Rightarrow> string list" where
  "historyCalls es = concat (map (\<lambda>e. case e of OnAddHistory q \<Rightarrow> [q] | _ \<Rightarrow> []) es)"

definition oracleCalls :: "effect list \<Rightarrow> (string \<times> UserRole) list" where
  "oracleCalls es =
     concat (map (\<lambda>e. case e of ValidateAndSearch q r \<Rightarrow> [(q, r)] | _ \<Rightarrow> []) es)"


section \<open>The focus timer\<close>

text \<open>
  The state of the \<^verbatim>\<open>Timer\<close> component is its four \<^verbatim>\<open>useState\<close> cells;
  the hours and minutes are whole numbers (the input handlers store
  \<^verbatim>\<open>parseInt\<close> results). \<^verbatim>\<open>isActive\<close> and \<^verbatim>\<open>isPaused\<close> are properties
  owned by the parent, so they are arguments of every step; the parent learns of the
  start and of the end by the two callbacks, which the steps return in order.
\<close>

record Timer =
  timeLeft :: int
  durationHours :: int
  durationMinutes :: int
  initialTotalSeconds :: int

datatype signal = OnStartLock | OnTimerEnd

text \<open>\<^verbatim>\<open>startTimer\<close>: the total is computed from the two inputs, and the rest of
  the body, \<open>startWith\<close>, depends on the total only.\<close>

definition startWith :: "int \<Rightarrow> Timer \<Rightarrow> Timer \<times> signal list" where
  "startWith totalSeconds t =
     (if totalSeconds \<le> 0 then (t, [])
      else (t\<lparr> initialTotalSeconds := totalSeconds, timeLeft := totalSeconds \<rparr>,
            [OnStartLock]))"

definition startTimer :: "Timer \<Rightarrow> Timer \<times> signal list" where
  "startTimer t = startWith ((durationHours t * 3600) + (durationMinutes t * 60)) t"

text \<open>
  The ticking effect keeps an interval alive exactly while its guard does not return
  early; each firing of the interval runs the updater of \<^verbatim>\<open>setTimeLeft\<close> once.
  \<open>tick\<close> is one elapsed second: nothing when no interval is alive, the updater
  otherwise.
\<close>

definition intervalAlive :: "bool \<Rightarrow> bool \<Rightarrow> Timer \<Rightarrow> bool" where
  "intervalAlive isActive isPaused t = (\<not> (\<not> isActive \<or> timeLeft t \<le> 0 \<or> isPaused))"

definition tick :: "bool \<Rightarrow> bool \<Rightarrow> Timer \<Rightarrow> Timer \<times> signal list" where
  "tick isActive isPaused t =
     (if \<not> intervalAlive isActive isPaused t then (t, [])
      else if timeLeft t \<le> 1 then (t\<lparr> timeLeft := 0 \<rparr>, [OnTimerEnd])
      else (t\<lparr> timeLeft := timeLeft t - 1 \<rparr>, []))"

text \<open>\<open>n\<close> elapsed seconds under fixed properties, the signals accumulated.\<close>

fun ticks :: "nat \<Rightarrow> bool \<Rightarrow> bool \<Rightarrow> Timer \<times> signal list \<Rightarrow> Timer \<times> signal list" where
  "ticks 0 isActive isPaused ts = ts"
| "ticks (Suc n) isActive isPaused (t, sigs) =
     (case tick isActive isPaused t of
        (t', new) \<Rightarrow> ticks n isActive isPaused (t', sigs @ new))"


section \<open>Profile setup\<close>

text \<open>
  \<^verbatim>\<open>UserProfile\<close> is imported from \<^verbatim>\<open>../types\<close>; its fields are those the
  component writes and reads (\<^verbatim>\<open>email\<close>, \<^verbatim>\<open>passwordHash\<close> and
  \<^verbatim>\<open>isGuest\<close> are absent from some profiles). The fields of the profile carry the
  prefix \<open>u_\<close> and the state cells of the component the prefix \<open>ps_\<close>, the bare names
  being those of the search component. The effects are the write to local storage and
  the call of \<^verbatim>\<open>onComplete\<close>.
\<close>

record UserProfile =
  u_name :: string
  u_role :: UserRole
  u_email :: "string option"
  u_passwordHash :: "string option"
  u_isLocked :: bool
  u_isGuest :: "bool option"

record ProfileSetup =
  ps_email :: string
  ps_name :: string
  ps_role :: UserRole
  ps_password :: string
  ps_confirmPassword :: string
  ps_isKnownUser :: bool
  ps_error :: "string option"
  registeredUsers :: "UserProfile list"

datatype setup_effect = SetItem string "UserProfile list" | OnComplete UserProfile

definition handleGuest :: "ProfileSetup \<Rightarrow> ProfileSetup \<times> setup_effect list" where
  "handleGuest s =
     (if ps_role s = UNSET
      then (s\<lparr> ps_error := Some ''Please pick a role to continue as guest.'' \<rparr>, [])
      else (s, [OnComplete \<lparr> u_name = ''Guest User'', u_role = ps_role s, u_email = None,
                              u_passwordHash = None, u_isLocked = False,
                              u_isGuest = Some True \<rparr>]))"

definition handleSubmit :: "ProfileSetup \<Rightarrow> ProfileSetup \<times> setup_effect list" where
  "handleSubmit s0 =
     (let s = s0\<lparr> ps_error := None \<rparr> in
      if ps_role s = UNSET
      then (s\<lparr> ps_error := Some ''A field must be chosen: Please select a role.'' \<rparr>, [])
      else if ps_isKnownUser s then
        (case find (\<lambda>u. map_option toLowerCase (u_email u)
                          = Some (toLowerCase (ps_email s))) (registeredUsers s) of
           None \<Rightarrow> (s\<lparr> ps_error := Some ''Incorrect password for this email.'' \<rparr>, [])
         | Some user \<Rightarrow>
             if u_passwordHash user = Some (ps_password s)
             then (s, [OnComplete user])
             else (s\<lparr> ps_error := Some ''Incorrect password for this email.'' \<rparr>, []))
      else if ps_name s = [] \<or> ps_password s = [] \<or> ps_email s = []
      then (s\<lparr> ps_error := Some ''Please fill in all fields to create your account.'' \<rparr>,
            [])
      else if ps_password s \<noteq> ps_confirmPassword s
      then (s\<lparr> ps_error := Some ''Passwords do not match.'' \<rparr>, [])
      else
        (let newProfile = \<lparr> u_name = ps_name s, u_role = ps_role s,
                             u_email = Some (toLowerCase (ps_email s)),
                             u_passwordHash = Some (ps_password s), u_isLocked = False,
                             u_isGuest = None \<rparr>;
             updatedList = registeredUsers s @ [newProfile]
         in (s, [SetItem ''momo_registered_users'' updatedList, OnComplete newProfile])))"


section \<open>The content filter: blocks and the video exception\<close>

lemma isBlockedTLD_iff:
  "isBlockedTLD tlds u \<longleftrightarrow> (\<exists>tld \<in> set tlds. suffix tld u)"
  by (simp add: isBlockedTLD_def endsWith_def list_ex_iff)

lemma isBlockedSite_iff:
  "isBlockedSite sites u \<longleftrightarrow> (\<exists>site \<in> set sites. sublist site u)"
  by (simp add: isBlockedSite_def includesStr_def list_ex_iff)

lemma isBlocked_classifyLink:
  "isBlocked (classifyLink tlds sites role q l) \<longleftrightarrow>
     isBlockedTLD tlds (toLowerCase (url l)) \<or> isBlockedSite sites (toLowerCase (url l))
     \<or> (isYoutube (toLowerCase (url l))
         \<and> \<not> allowYoutubeException role q (toLowerCase (url l)))"
  by (simp add: classifyLink_def Let_def)

text \<open>
  C1. A link whose lower-cased URL ends with one of the blocked TLD suffixes, or
  contains one of the blocked site strings, is classified as blocked, whatever the role
  and the query are: the video exception only weakens the YouTube clause, so a student
  or teacher asking for videos still gets such a link blocked.
\<close>

theorem tld_or_site_block_is_absolute:
  assumes "(\<exists>tld \<in> set BLOCKED_TLDS. suffix tld (toLowerCase (url l)))
           \<or> (\<exists>site \<in> set BLOCKED_SITES. sublist site (toLowerCase (url l)))"
  shows "isBlocked (classifyLink BLOCKED_TLDS BLOCKED_SITES role searchQuery l)"
  using assms
  by (simp only: isBlocked_classifyLink isBlockedTLD_iff isBlockedSite_iff) blast

theorem tld_or_site_block_is_absolute_witness:
  "suffix ''.xxx'' (toLowerCase ''https://www.YouTube.com/learning/a.XXX'')
   \<and> isAllowedRole TEACHER
   \<and> isExplicitVideoSearch ''YouTube video lectures''
   \<and> isBlocked (classifyLink [''.zip'', ''.xxx''] [''tiktok.com''] TEACHER
        ''YouTube video lectures''
        \<lparr> title = ''t'', url = ''https://www.YouTube.com/learning/a.XXX'',
          snippet = ''s'', thumbnailUrl = None \<rparr>)"
proof -
  have low: "toLowerCase ''https://www.YouTube.com/learning/a.XXX''
             = ''https://www.youtube.com/learning/a.xxx''"
    by code_simp
  have suf: "suffix ''.xxx'' (toLowerCase ''https://www.YouTube.com/learning/a.XXX'')"
    unfolding low by code_simp
  have role: "isAllowedRole TEACHER"
    by (simp add: isAllowedRole_def)
  have vid: "isExplicitVideoSearch ''YouTube video lectures''"
    by code_simp
  have "isBlocked (classifyLink [''.zip'', ''.xxx''] [''tiktok.com''] TEACHER
        ''YouTube video lectures''
        \<lparr> title = ''t'', url = ''https://www.YouTube.com/learning/a.XXX'',
          snippet = ''s'', thumbnailUrl = None \<rparr>)"
    using suf
      tld_or_site_block_is_absolute [of "[''.zip'', ''.xxx'']"
        "\<lparr> title = ''t'', url = ''https://www.YouTube.com/learning/a.XXX'',
          snippet = ''s'', thumbnailUrl = None \<rparr>" "[''tiktok.com'']" TEACHER
        "''YouTube video lectures''"]
    by simp
  with suf role vid show ?thesis by simp
qed

text \<open>
  C2, as stated: for a student or a teacher, a link whose lower-cased URL contains
  \<^verbatim>\<open>youtube.com/learning\<close> is never blocked. It fails where the same URL also
  ends with a blocked TLD (or contains a blocked site): the block clauses come first in
  the disjunction. With \<^verbatim>\<open>.xxx\<close> on the TLD list, a learning-path URL ending
  in \<^verbatim>\<open>.xxx\<close> is blocked for a student.
\<close>

theorem learning_path_unblocked_counterexample:
  "isAllowedRole STUDENT
   \<and> includesStr (toLowerCase ''https://www.youtube.com/learning/a.xxx'')
        ''youtube.com/learning''
   \<and> isBlocked (classifyLink [''.xxx''] [] STUDENT ''algebra''
        \<lparr> title = ''t'', url = ''https://www.youtube.com/learning/a.xxx'',
          snippet = ''s'', thumbnailUrl = None \<rparr>)"
  by code_simp

text \<open>
  The counterexample does not hang on the choice of \<^verbatim>\<open>.xxx\<close>: every suffix on
  the TLD list, appended to a learning-path URL, gives a blocked learning-path link.
\<close>

lemma learning_path_blocked_for_any_tld:
  assumes "tld \<in> set BLOCKED_TLDS" and "toLowerCase tld = tld"
  shows "isLearningPath (toLowerCase (''youtube.com/learning'' @ tld))
         \<and> isBlocked (classifyLink BLOCKED_TLDS BLOCKED_SITES role searchQuery
              \<lparr> title = t, url = ''youtube.com/learning'' @ tld, snippet = s,
                thumbnailUrl = th \<rparr>)"
proof -
  have low: "toLowerCase (''youtube.com/learning'' @ tld) = ''youtube.com/learning'' @ tld"
  proof -
    have "toLowerCase (''youtube.com/learning'' @ tld)
          = toLowerCase ''youtube.com/learning'' @ toLowerCase tld"
      by (simp add: toLowerCase_def)
    moreover have "toLowerCase ''youtube.com/learning'' = ''youtube.com/learning''"
      by code_simp
    ultimately show ?thesis using assms(2) by simp
  qed
  have "sublist ''youtube.com/learning'' (''youtube.com/learning'' @ tld)"
    by (rule sublist_append_rightI)
  then have lp: "isLearningPath (toLowerCase (''youtube.com/learning'' @ tld))"
    by (simp only: low isLearningPath_def includesStr_def)
  have "suffix tld (''youtube.com/learning'' @ tld)"
    by (rule suffixI) simp
  with assms(1) have "isBlockedTLD BLOCKED_TLDS (''youtube.com/learning'' @ tld)"
    unfolding isBlockedTLD_iff by blast
  then have "isBlocked (classifyLink BLOCKED_TLDS BLOCKED_SITES role searchQuery
              \<lparr> title = t, url = ''youtube.com/learning'' @ tld, snippet = s,
                thumbnailUrl = th \<rparr>)"
    by (simp only: isBlocked_classifyLink link.select_convs low simp_thms)
  with lp show ?thesis ..
qed

text \<open>
  C2, amended: for a student or a teacher, a link whose lower-cased URL contains
  \<^verbatim>\<open>youtube.com/learning\<close>, ends with no blocked TLD suffix and contains no
  blocked site string is not blocked, whatever the query is.
\<close>

theorem learning_path_unblocked_unless_tld_or_site:
  assumes "role = STUDENT \<or> role = TEACHER"
    and "sublist ''youtube.com/learning'' (toLowerCase (url l))"
    and "\<forall>tld \<in> set BLOCKED_TLDS. \<not> suffix tld (toLowerCase (url l))"
    and "\<forall>site \<in> set BLOCKED_SITES. \<not> sublist site (toLowerCase (url l))"
  shows "\<not> isBlocked (classifyLink BLOCKED_TLDS BLOCKED_SITES role searchQuery l)"
proof -
  from assms(1,2) have "allowYoutubeException role searchQuery (toLowerCase (url l))"
    by (simp add: allowYoutubeException_def isAllowedRole_def isLearningPath_def
        includesStr_def)
  moreover from assms(3) have "\<not> isBlockedTLD BLOCKED_TLDS (toLowerCase (url l))"
    unfolding isBlockedTLD_iff by blast
  moreover from assms(4) have "\<not> isBlockedSite BLOCKED_SITES (toLowerCase (url l))"
    unfolding isBlockedSite_iff by blast
  ultimately show ?thesis
    unfolding isBlocked_classifyLink by blast
qed

theorem learning_path_unblocked_unless_tld_or_site_witness:
  "sublist ''youtube.com/learning'' (toLowerCase ''https://www.YouTube.com/Learning/math'')
   \<and> \<not> isBlocked (classifyLink [''.xxx'', ''.zip''] [''tiktok.com''] STUDENT ''algebra''
        \<lparr> title = ''t'', url = ''https://www.YouTube.com/Learning/math'',
          snippet = ''s'', thumbnailUrl = None \<rparr>)"
proof -
  let ?l = "\<lparr> title = ''t'', url = ''https://www.YouTube.com/Learning/math'',
          snippet = ''s'', thumbnailUrl = None \<rparr>"
  have low: "toLowerCase (url ?l) = ''https://www.youtube.com/learning/math''"
    by code_simp
  have h1: "STUDENT = STUDENT \<or> STUDENT = TEACHER" by simp
  have h2: "sublist ''youtube.com/learning'' (toLowerCase (url ?l))"
    unfolding low by code_simp
  have h3: "\<forall>tld \<in> set [''.xxx'', ''.zip'']. \<not> suffix tld (toLowerCase (url ?l))"
    unfolding low by code_simp
  have h4: "\<forall>site \<in> set [''tiktok.com'']. \<not> sublist site (toLowerCase (url ?l))"
    unfolding low by code_simp
  from learning_path_unblocked_unless_tld_or_site [OF h1 h2 h3 h4, of "''algebra''"] h2
  show ?thesis by simp
qed

text \<open>
  C3. A link whose lower-cased URL contains \<^verbatim>\<open>youtube.com\<close> or
  \<^verbatim>\<open>youtu.be\<close> but not \<^verbatim>\<open>youtube.com/learning\<close> is blocked for every role
  when the lower-cased query contains neither \<^verbatim>\<open>video\<close> nor
  \<^verbatim>\<open>youtube\<close>.
\<close>

theorem youtube_without_exception_is_blocked:
  assumes "sublist ''youtube.com'' (toLowerCase (url l))
           \<or> sublist ''youtu.be'' (toLowerCase (url l))"
    and "\<not> sublist ''youtube.com/learning'' (toLowerCase (url l))"
    and "\<not> sublist ''video'' (toLowerCase searchQuery)"
    and "\<not> sublist ''youtube'' (toLowerCase searchQuery)"
  shows "isBlocked (classifyLink BLOCKED_TLDS BLOCKED_SITES role searchQuery l)"
proof -
  from assms(1) have "isYoutube (toLowerCase (url l))"
    by (simp add: isYoutube_def includesStr_def)
  moreover from assms(2,3,4)
  have "\<not> allowYoutubeException role searchQuery (toLowerCase (url l))"
    by (simp add: allowYoutubeException_def isLearningPath_def isExplicitVideoSearch_def
        includesStr_def)
  ultimately show ?thesis
    unfolding isBlocked_classifyLink by blast
qed

theorem youtube_without_exception_is_blocked_witness:
  "sublist ''youtu.be'' (toLowerCase ''https://youtu.be/dQw4'')
   \<and> \<not> sublist ''video'' (toLowerCase ''Algebra Basics'')
   \<and> isBlocked (classifyLink [] [] TEACHER ''Algebra Basics''
        \<lparr> title = ''t'', url = ''https://youtu.be/dQw4'', snippet = ''s'',
          thumbnailUrl = None \<rparr>)"
proof -
  let ?l = "\<lparr> title = ''t'', url = ''https://youtu.be/dQw4'', snippet = ''s'',
          thumbnailUrl = None \<rparr>"
  have lowu: "toLowerCase (url ?l) = ''https://youtu.be/dqw4''"
    by code_simp
  have lowq: "toLowerCase ''Algebra Basics'' = ''algebra basics''"
    by code_simp
  have y: "sublist ''youtu.be'' (toLowerCase (url ?l))"
    unfolding lowu by code_simp
  then have h1: "sublist ''youtube.com'' (toLowerCase (url ?l))
           \<or> sublist ''youtu.be'' (toLowerCase (url ?l))" ..
  have h2: "\<not> sublist ''youtube.com/learning'' (toLowerCase (url ?l))"
    unfolding lowu by code_simp
  have h3: "\<not> sublist ''video'' (toLowerCase ''Algebra Basics'')"
    unfolding lowq by code_simp
  have h4: "\<not> sublist ''youtube'' (toLowerCase ''Algebra Basics'')"
    unfolding lowq by code_simp
  from youtube_without_exception_is_blocked [OF h1 h2 h3 h4, of "[]" "[]" TEACHER] y h3
  show ?thesis by simp
qed


section \<open>The search operation: rejections, failures and history\<close>

lemma handleSearch_blank:
  "trim (searchQueryOf explicitQuery s) = [] \<Longrightarrow>
   handleSearch generateContent parse tlds sites role explicitQuery s = (s, [])"
  by (simp add: handleSearch_def)

lemma handleSearch_effects:
  assumes "trim (searchQueryOf explicitQuery s) \<noteq> []"
  shows "snd (handleSearch generateContent parse tlds sites role explicitQuery s) =
         ValidateAndSearch (searchQueryOf explicitQuery s) role #
         (if validated (validateAndSearch generateContent parse
                          (searchQueryOf explicitQuery s) role)
          then [OnAddHistory (searchQueryOf explicitQuery s)] else [])"
  using assms
  by (simp add: handleSearch_def Let_def validated_def
      split: awaited.splits parsed.splits option.splits)

lemma historyCalls_simps:
  "historyCalls [] = []"
  "historyCalls (ValidateAndSearch q r # es) = historyCalls es"
  "historyCalls (OnAddHistory q # es) = q # historyCalls es"
  by (simp_all add: historyCalls_def)

lemma oracleCalls_simps:
  "oracleCalls [] = []"
  "oracleCalls (ValidateAndSearch q r # es) = (q, r) # oracleCalls es"
  "oracleCalls (OnAddHistory q # es) = oracleCalls es"
  by (simp_all add: oracleCalls_def)

lemma handleSearch_historyCalls:
  assumes "trim (searchQueryOf explicitQuery s) \<noteq> []"
  shows "historyCalls (snd (handleSearch generateContent parse tlds sites role
                              explicitQuery s)) =
         (if validated (validateAndSearch generateContent parse
                          (searchQueryOf explicitQuery s) role)
          then [searchQueryOf explicitQuery s] else [])"
  by (simp add: handleSearch_effects [OF assms] historyCalls_simps)

lemma handleSearch_oracleCalls:
  assumes "trim (searchQueryOf explicitQuery s) \<noteq> []"
  shows "oracleCalls (snd (handleSearch generateContent parse tlds sites role
                             explicitQuery s)) =
         [(searchQueryOf explicitQuery s, role)]"
  by (simp add: handleSearch_effects [OF assms] oracleCalls_simps)

lemma those_eq_None_iff: "those xs = None \<longleftrightarrow> None \<in> set xs"
  by (induction xs) (auto split: option.splits)

lemma mapLinks_eq_None_iff:
  "mapLinks tlds sites role q ls = None \<longleftrightarrow> None \<in> set ls"
  by (auto simp add: mapLinks_def those_eq_None_iff)

text \<open>
  C6, as stated: a query that trims to the empty string is rejected as invalid input,
  an error the user gets to see. The code has no such error: the guard is a bare
  \<^verbatim>\<open>return\<close> that sets nothing. After a search for two spaces, a search box
  that showed no error still shows none, and one that showed the rejection of an
  earlier search (\<^verbatim>\<open>Off topic.\<close>) still shows that one.
\<close>

theorem blank_query_invalid_input_counterexample:
  "error (fst (handleSearch (\<lambda>q r. None) (\<lambda>t. None) [] [] STUDENT (Some ''  '')
      \<lparr> query = ''old'', loading = False, allResults = [], visibleCount = 6,
        error = None, showHistoryView = False, historyFilter = '''' \<rparr>)) = None
   \<and> error (fst (handleSearch (\<lambda>q r. None) (\<lambda>t. None) [] [] STUDENT (Some ''  '')
      \<lparr> query = ''old'', loading = False, allResults = [], visibleCount = 6,
        error = Some ''Off topic.'', showHistoryView = False, historyFilter = '''' \<rparr>))
     = Some ''Off topic.''"
  by (simp add: handleSearch_def Let_def searchQueryOf_def trim_def isWhiteSpace_def)

text \<open>
  C6, amended: when the query in effect (the explicit query, or the text of the search
  box when there is none) trims to the empty string, \<^verbatim>\<open>handleSearch\<close> returns at
  once and silently: no error is set, the state of the component, the error shown
  before included, is what it was, the oracle is not called and
  \<^verbatim>\<open>onAddHistory\<close> is not called.
\<close>

theorem blank_query_returns_silently:
  assumes "trim (searchQueryOf explicitQuery s) = []"
  shows "handleSearch generateContent parse BLOCKED_TLDS BLOCKED_SITES role explicitQuery s
           = (s, [])
         \<and> error (fst (handleSearch generateContent parse BLOCKED_TLDS BLOCKED_SITES
                          role explicitQuery s)) = error s
         \<and> oracleCalls (snd (handleSearch generateContent parse BLOCKED_TLDS
                                BLOCKED_SITES role explicitQuery s)) = []
         \<and> historyCalls (snd (handleSearch generateContent parse BLOCKED_TLDS
                                 BLOCKED_SITES role explicitQuery s)) = []"
  by (simp add: handleSearch_blank [OF assms] historyCalls_simps oracleCalls_simps)

theorem blank_query_returns_silently_witness:
  "trim (searchQueryOf (Some ''  '')
      \<lparr> query = ''old'', loading = False, allResults = [], visibleCount = 6,
        error = Some ''Off topic.'', showHistoryView = False,
        historyFilter = '''' \<rparr>) = []
   \<and> handleSearch (\<lambda>q r. None) (\<lambda>t. None) [] [] STUDENT (Some ''  '')
      \<lparr> query = ''old'', loading = False, allResults = [], visibleCount = 6,
        error = Some ''Off topic.'', showHistoryView = False, historyFilter = '''' \<rparr>
     = (\<lparr> query = ''old'', loading = False, allResults = [], visibleCount = 6,
          error = Some ''Off topic.'', showHistoryView = False,
          historyFilter = '''' \<rparr>, [])"
proof -
  let ?s = "\<lparr> query = ''old'', loading = False, allResults = [], visibleCount = 6,
        error = Some ''Off topic.'', showHistoryView = False, historyFilter = '''' \<rparr>"
  have blank: "trim (searchQueryOf (Some ''  '') ?s) = []"
    by (simp add: searchQueryOf_def trim_def isWhiteSpace_def)
  from blank_query_returns_silently [OF blank, of "\<lambda>q r. None" "\<lambda>t. None" "[]" "[]" STUDENT]
    blank
  show ?thesis by simp
qed


text \<open>
  C7. For a query that does not trim to the empty string, the oracle is called once.
  When the awaited reply carries \<^verbatim>\<open>isValid == false\<close>, the reason of the reply
  becomes the error shown, and \<^verbatim>\<open>onAddHistory\<close> is not called. Over all replies,
  \<^verbatim>\<open>onAddHistory\<close> is called exactly once when the query is validated and not at
  all when it is not.
\<close>

theorem rejection_surfaces_reason_and_history_once_per_validated:
  assumes "trim (searchQueryOf explicitQuery s) \<noteq> []"
  shows "oracleCalls (snd (handleSearch generateContent parse BLOCKED_TLDS BLOCKED_SITES
                             role explicitQuery s))
           = [(searchQueryOf explicitQuery s, role)]
         \<and> length (historyCalls (snd (handleSearch generateContent parse BLOCKED_TLDS
                                         BLOCKED_SITES role explicitQuery s)))
           = (if validated (validateAndSearch generateContent parse
                              (searchQueryOf explicitQuery s) role)
              then 1 else 0)
         \<and> (\<forall>aiResponse.
               validateAndSearch generateContent parse (searchQueryOf explicitQuery s) role
                 = Resolved (JObject aiResponse)
               \<and> isValid aiResponse = Some False
               \<longrightarrow> error (fst (handleSearch generateContent parse BLOCKED_TLDS
                                   BLOCKED_SITES role explicitQuery s))
                     = reason aiResponse
                   \<and> historyCalls (snd (handleSearch generateContent parse BLOCKED_TLDS
                                           BLOCKED_SITES role explicitQuery s)) = [])"
proof (intro conjI allI impI)
  show "oracleCalls (snd (handleSearch generateContent parse BLOCKED_TLDS BLOCKED_SITES
                             role explicitQuery s))
           = [(searchQueryOf explicitQuery s, role)]"
    by (rule handleSearch_oracleCalls [OF assms])
next
  show "length (historyCalls (snd (handleSearch generateContent parse BLOCKED_TLDS
                                         BLOCKED_SITES role explicitQuery s)))
           = (if validated (validateAndSearch generateContent parse
                              (searchQueryOf explicitQuery s) role)
              then 1 else 0)"
    by (simp add: handleSearch_historyCalls [OF assms])
next
  fix aiResponse
  assume r: "validateAndSearch generateContent parse (searchQueryOf explicitQuery s) role
                 = Resolved (JObject aiResponse)
               \<and> isValid aiResponse = Some False"
  with assms
  show "error (fst (handleSearch generateContent parse BLOCKED_TLDS
                                   BLOCKED_SITES role explicitQuery s))
                     = reason aiResponse"
    by (simp add: handleSearch_def Let_def)
  from r have "\<not> validated (validateAndSearch generateContent parse
                              (searchQueryOf explicitQuery s) role)"
    by (simp add: validated_def)
  then show "historyCalls (snd (handleSearch generateContent parse BLOCKED_TLDS
                                           BLOCKED_SITES role explicitQuery s)) = []"
    by (simp add: handleSearch_historyCalls [OF assms])
qed

theorem rejection_surfaces_reason_and_history_once_per_validated_witness:
  "trim (searchQueryOf None
      \<lparr> query = ''cat memes'', loading = False, allResults = [], visibleCount = 6,
        error = None, showHistoryView = False, historyFilter = '''' \<rparr>) \<noteq> []
   \<and> error (fst (handleSearch (\<lambda>q r. Some ''reply'')
        (\<lambda>t. Some (JObject \<lparr> isValid = Some False, reason = Some ''Off topic.'',
                               suggestedLinks = Some [] \<rparr>))
        [] [] RESEARCHER None
        \<lparr> query = ''cat memes'', loading = False, allResults = [], visibleCount = 6,
          error = None, showHistoryView = False, historyFilter = '''' \<rparr>))
     = Some ''Off topic.''
   \<and> historyCalls (snd (handleSearch (\<lambda>q r. Some ''reply'')
        (\<lambda>t. Some (JObject \<lparr> isValid = Some False, reason = Some ''Off topic.'',
                               suggestedLinks = Some [] \<rparr>))
        [] [] RESEARCHER None
        \<lparr> query = ''cat memes'', loading = False, allResults = [], visibleCount = 6,
          error = None, showHistoryView = False, historyFilter = '''' \<rparr>)) = []"
proof -
  let ?s = "\<lparr> query = ''cat memes'', loading = False, allResults = [], visibleCount = 6,
        error = None, showHistoryView = False, historyFilter = '''' \<rparr>"
  let ?r = "\<lparr> isValid = Some False, reason = Some ''Off topic.'',
             suggestedLinks = Some [] \<rparr>"
  have nonblank: "trim (searchQueryOf None ?s) \<noteq> []"
    by (simp add: searchQueryOf_def trim_def isWhiteSpace_def)
  have reply: "validateAndSearch (\<lambda>q r. Some ''reply'') (\<lambda>t. Some (JObject ?r))
                 (searchQueryOf None ?s) RESEARCHER = Resolved (JObject ?r)
               \<and> isValid ?r = Some False"
    by (simp add: validateAndSearch_def)
  from rejection_surfaces_reason_and_history_once_per_validated
         [OF nonblank, of "\<lambda>q r. Some ''reply''" "\<lambda>t. Some (JObject ?r)" "[]" "[]"
            RESEARCHER]
  have "error (fst (handleSearch (\<lambda>q r. Some ''reply'') (\<lambda>t. Some (JObject ?r))
                  [] [] RESEARCHER None ?s)) = reason ?r
        \<and> historyCalls (snd (handleSearch (\<lambda>q r. Some ''reply'')
                  (\<lambda>t. Some (JObject ?r)) [] [] RESEARCHER None ?s)) = []"
    using reply by blast
  with nonblank show ?thesis by simp
qed

text \<open>
  C10. For a query that does not trim to the empty string, the query in effect, as it
  was typed or passed (one of the raw inputs, not its trimmed form), is the argument of
  the one call of the oracle and, when the query is validated, of the one call of
  \<^verbatim>\<open>onAddHistory\<close>. So two validated searches whose queries differ, be it only in
  the white space around them, hand different entries to the history.
\<close>

theorem raw_query_sent_to_oracle_and_history:
  assumes "trim (searchQueryOf explicitQuery s) \<noteq> []"
  shows "(searchQueryOf explicitQuery s = query s
          \<or> explicitQuery = Some (searchQueryOf explicitQuery s))
         \<and> oracleCalls (snd (handleSearch generateContent parse BLOCKED_TLDS BLOCKED_SITES
                                role explicitQuery s))
           = [(searchQueryOf explicitQuery s, role)]
         \<and> historyCalls (snd (handleSearch generateContent parse BLOCKED_TLDS BLOCKED_SITES
                                 role explicitQuery s))
           = (if validated (validateAndSearch generateContent parse
                              (searchQueryOf explicitQuery s) role)
              then [searchQueryOf explicitQuery s] else [])
         \<and> (\<forall>explicitQuery' s'.
               trim (searchQueryOf explicitQuery' s') \<noteq> []
               \<and> searchQueryOf explicitQuery' s' \<noteq> searchQueryOf explicitQuery s
               \<and> validated (validateAndSearch generateContent parse
                              (searchQueryOf explicitQuery s) role)
               \<and> validated (validateAndSearch generateContent parse
                              (searchQueryOf explicitQuery' s') role)
               \<longrightarrow> historyCalls (snd (handleSearch generateContent parse BLOCKED_TLDS
                                          BLOCKED_SITES role explicitQuery' s'))
                    \<noteq> historyCalls (snd (handleSearch generateContent parse BLOCKED_TLDS
                                          BLOCKED_SITES role explicitQuery s)))"
proof (intro conjI allI impI)
  show "searchQueryOf explicitQuery s = query s
          \<or> explicitQuery = Some (searchQueryOf explicitQuery s)"
    by (simp add: searchQueryOf_def split: option.splits)
next
  show "oracleCalls (snd (handleSearch generateContent parse BLOCKED_TLDS BLOCKED_SITES
                                role explicitQuery s))
           = [(searchQueryOf explicitQuery s, role)]"
    by (rule handleSearch_oracleCalls [OF assms])
next
  show "historyCalls (snd (handleSearch generateContent parse BLOCKED_TLDS BLOCKED_SITES
                                 role explicitQuery s))
           = (if validated (validateAndSearch generateContent parse
                              (searchQueryOf explicitQuery s) role)
              then [searchQueryOf explicitQuery s] else [])"
    by (rule handleSearch_historyCalls [OF assms])
next
  fix explicitQuery' s'
  assume h: "trim (searchQueryOf explicitQuery' s') \<noteq> []
               \<and> searchQueryOf explicitQuery' s' \<noteq> searchQueryOf explicitQuery s
               \<and> validated (validateAndSearch generateContent parse
                              (searchQueryOf explicitQuery s) role)
               \<and> validated (validateAndSearch generateContent parse
                              (searchQueryOf explicitQuery' s') role)"
  then have nb: "trim (searchQueryOf explicitQuery' s') \<noteq> []" by blast
  from h show "historyCalls (snd (handleSearch generateContent parse BLOCKED_TLDS
                                          BLOCKED_SITES role explicitQuery' s'))
                    \<noteq> historyCalls (snd (handleSearch generateContent parse BLOCKED_TLDS
                                          BLOCKED_SITES role explicitQuery s))"
    by (simp add: handleSearch_historyCalls [OF assms] handleSearch_historyCalls [OF nb])
qed


theorem raw_query_sent_to_oracle_and_history_witness:
  "trim '' cats '' = trim ''cats''
   \<and> oracleCalls (snd (handleSearch (\<lambda>q r. Some ''reply'')
        (\<lambda>t. Some (JObject \<lparr> isValid = Some True, reason = Some ''Fine.'',
                               suggestedLinks = Some [] \<rparr>))
        [] [] STUDENT (Some '' cats '')
        \<lparr> query = ''cats'', loading = False, allResults = [], visibleCount = 6,
          error = None, showHistoryView = False, historyFilter = '''' \<rparr>))
     = [('' cats '', STUDENT)]
   \<and> historyCalls (snd (handleSearch (\<lambda>q r. Some ''reply'')
        (\<lambda>t. Some (JObject \<lparr> isValid = Some True, reason = Some ''Fine.'',
                               suggestedLinks = Some [] \<rparr>))
        [] [] STUDENT (Some '' cats '')
        \<lparr> query = ''cats'', loading = False, allResults = [], visibleCount = 6,
          error = None, showHistoryView = False, historyFilter = '''' \<rparr>))
     = ['' cats '']
   \<and> historyCalls (snd (handleSearch (\<lambda>q r. Some ''reply'')
        (\<lambda>t. Some (JObject \<lparr> isValid = Some True, reason = Some ''Fine.'',
                               suggestedLinks = Some [] \<rparr>))
        [] [] STUDENT None
        \<lparr> query = ''cats'', loading = False, allResults = [], visibleCount = 6,
          error = None, showHistoryView = False, historyFilter = '''' \<rparr>))
     \<noteq> ['' cats '']"
proof -
  let ?s = "\<lparr> query = ''cats'', loading = False, allResults = [], visibleCount = 6,
        error = None, showHistoryView = False, historyFilter = '''' \<rparr>"
  let ?g = "\<lambda>(q::string) (r::UserRole). Some ''reply''"
  let ?p = "\<lambda>t::string. Some (JObject \<lparr> isValid = Some True, reason = Some ''Fine.'',
                               suggestedLinks = Some [] \<rparr>)"
  have q1: "searchQueryOf (Some '' cats '') ?s = '' cats ''"
    and q2: "searchQueryOf None ?s = ''cats''"
    by (simp_all add: searchQueryOf_def)
  have t1: "trim '' cats '' = ''cats''" and t2: "trim ''cats'' = ''cats''"
    by (simp_all add: trim_def isWhiteSpace_def)
  have nb1: "trim (searchQueryOf (Some '' cats '') ?s) \<noteq> []"
    and nb2: "trim (searchQueryOf None ?s) \<noteq> []"
    by (simp_all only: q1 q2 t1 t2) simp_all
  have v: "validated (validateAndSearch ?g ?p q STUDENT)" for q
    by (simp add: validateAndSearch_def validated_def)
  note inst = raw_query_sent_to_oracle_and_history [OF nb1, of ?g ?p "[]" "[]" STUDENT]
  from inst have o: "oracleCalls (snd (handleSearch ?g ?p [] [] STUDENT (Some '' cats '') ?s))
                    = [('' cats '', STUDENT)]"
    by (simp only: q1)
  from inst v have h: "historyCalls (snd (handleSearch ?g ?p [] [] STUDENT (Some '' cats '') ?s))
                    = ['' cats '']"
    by (simp only: q1 if_True)
  from inst have "trim (searchQueryOf None ?s) \<noteq> []
               \<and> searchQueryOf None ?s \<noteq> searchQueryOf (Some '' cats '') ?s
               \<and> validated (validateAndSearch ?g ?p (searchQueryOf (Some '' cats '') ?s) STUDENT)
               \<and> validated (validateAndSearch ?g ?p (searchQueryOf None ?s) STUDENT)
               \<longrightarrow> historyCalls (snd (handleSearch ?g ?p [] [] STUDENT None ?s))
                    \<noteq> historyCalls (snd (handleSearch ?g ?p [] [] STUDENT
                                            (Some '' cats '') ?s))"
    by blast
  moreover have "searchQueryOf None ?s \<noteq> searchQueryOf (Some '' cats '') ?s"
    by (simp only: q1 q2) simp
  ultimately have d: "historyCalls (snd (handleSearch ?g ?p [] [] STUDENT None ?s))
                    \<noteq> ['' cats '']"
    using nb2 v h by simp
  from t1 t2 o h d show ?thesis by simp
qed

text \<open>
  C4, as stated: a reply without \<^verbatim>\<open>suggestedLinks\<close> leaves the displayed results
  and the history as they were and surfaces a distinct malformed-response error. The
  code has no check of the reply and no such error: the results are cleared before the
  oracle is called, \<^verbatim>\<open>onAddHistory\<close> is called as soon as \<^verbatim>\<open>isValid\<close> is
  true, and reading the missing list throws into the one \<^verbatim>\<open>catch\<close> block, whose
  message is the one a network failure gets. Here the search box holds \<^verbatim>\<open>cats\<close>,
  one result is displayed, and the reply is valid with no list of links.
\<close>

theorem malformed_reply_untouched_counterexample:
  "allResults \<lparr> query = ''cats'', loading = False,
       allResults = [\<lparr> title = ''t'', url = ''https://a.edu'', snippet = ''s'',
                       thumbnailUrl = None, isTrusted = True, isBlocked = False,
                       blockReason = '''' \<rparr>],
       visibleCount = 6, error = None, showHistoryView = False,
       historyFilter = '''' \<rparr> \<noteq> []
   \<and> handleSearch (\<lambda>q r. Some ''reply'')
       (\<lambda>t. Some (JObject \<lparr> isValid = Some True, reason = Some ''Fine.'',
                              suggestedLinks = None \<rparr>))
       [] [] STUDENT None
       \<lparr> query = ''cats'', loading = False,
         allResults = [\<lparr> title = ''t'', url = ''https://a.edu'', snippet = ''s'',
                         thumbnailUrl = None, isTrusted = True, isBlocked = False,
                         blockReason = '''' \<rparr>],
         visibleCount = 6, error = None, showHistoryView = False,
         historyFilter = '''' \<rparr>
     = (\<lparr> query = ''cats'', loading = False, allResults = [], visibleCount = 6,
          error = Some ''Search failed. Please try again later.'',
          showHistoryView = False, historyFilter = '''' \<rparr>,
        [ValidateAndSearch ''cats'' STUDENT, OnAddHistory ''cats''])"
  by (simp add: handleSearch_def Let_def searchQueryOf_def isFalsy_def trim_def
      isWhiteSpace_def validateAndSearch_def searchFailed_def)


text \<open>
  C4, amended: when the reply has no \<^verbatim>\<open>suggestedLinks\<close>, or a link in it has no
  \<^verbatim>\<open>url\<close> string, no distinct malformed-response error is raised. The results
  displayed before are cleared, as at the start of every search whose query is not
  blank. When \<^verbatim>\<open>isValid\<close> is true, the message shown is the generic
  \<^verbatim>\<open>Search failed. Please try again later.\<close> and the query has already been passed
  to \<^verbatim>\<open>onAddHistory\<close>, once; when it is not, the reply is an ordinary rejection:
  its reason is shown and \<^verbatim>\<open>onAddHistory\<close> is not called.
\<close>

theorem malformed_reply_fails_generically:
  assumes "trim (searchQueryOf explicitQuery s) \<noteq> []"
    and "validateAndSearch generateContent parse (searchQueryOf explicitQuery s) role
           = Resolved (JObject aiResponse)"
    and "suggestedLinks aiResponse = None
         \<or> (\<exists>ls. suggestedLinks aiResponse = Some ls \<and> None \<in> set ls)"
  shows "allResults (fst (handleSearch generateContent parse BLOCKED_TLDS BLOCKED_SITES
                            role explicitQuery s)) = []
         \<and> loading (fst (handleSearch generateContent parse BLOCKED_TLDS BLOCKED_SITES
                            role explicitQuery s)) = False
         \<and> (isValid aiResponse = Some True \<longrightarrow>
              error (fst (handleSearch generateContent parse BLOCKED_TLDS BLOCKED_SITES
                            role explicitQuery s))
                = Some ''Search failed. Please try again later.''
              \<and> historyCalls (snd (handleSearch generateContent parse BLOCKED_TLDS
                                      BLOCKED_SITES role explicitQuery s))
                = [searchQueryOf explicitQuery s])
         \<and> (isValid aiResponse \<noteq> Some True \<longrightarrow>
              error (fst (handleSearch generateContent parse BLOCKED_TLDS BLOCKED_SITES
                            role explicitQuery s))
                = reason aiResponse
              \<and> historyCalls (snd (handleSearch generateContent parse BLOCKED_TLDS
                                      BLOCKED_SITES role explicitQuery s)) = [])"
proof -
  from assms(3)
  have bad: "case suggestedLinks aiResponse of
               None \<Rightarrow> True
             | Some ls \<Rightarrow> mapLinks BLOCKED_TLDS BLOCKED_SITES role
                            (searchQueryOf explicitQuery s) ls = None"
    by (auto simp add: mapLinks_eq_None_iff)
  have hist: "historyCalls (snd (handleSearch generateContent parse BLOCKED_TLDS
                                   BLOCKED_SITES role explicitQuery s))
              = (if isValid aiResponse = Some True
                 then [searchQueryOf explicitQuery s] else [])"
    by (simp add: handleSearch_historyCalls [OF assms(1)] assms(2) validated_def)
  have st: "allResults (fst (handleSearch generateContent parse BLOCKED_TLDS BLOCKED_SITES
                            role explicitQuery s)) = []
         \<and> loading (fst (handleSearch generateContent parse BLOCKED_TLDS BLOCKED_SITES
                            role explicitQuery s)) = False
         \<and> error (fst (handleSearch generateContent parse BLOCKED_TLDS BLOCKED_SITES
                            role explicitQuery s))
           = (if isValid aiResponse = Some True
              then Some ''Search failed. Please try again later.''
              else reason aiResponse)"
    using assms(1,2) bad
    by (simp add: handleSearch_def Let_def searchFailed_def split: option.splits)
  from hist st show ?thesis by simp
qed

theorem malformed_reply_fails_generically_witness:
  "error (fst (handleSearch (\<lambda>q r. Some ''reply'')
       (\<lambda>t. Some (JObject \<lparr> isValid = Some True, reason = Some ''Fine.'',
                              suggestedLinks = None \<rparr>))
       [] [] STUDENT None
       \<lparr> query = ''cats'', loading = False, allResults = [], visibleCount = 6,
         error = None, showHistoryView = False, historyFilter = '''' \<rparr>))
     = Some ''Search failed. Please try again later.''
   \<and> historyCalls (snd (handleSearch (\<lambda>q r. Some ''reply'')
       (\<lambda>t. Some (JObject \<lparr> isValid = Some True, reason = Some ''Fine.'',
                              suggestedLinks = None \<rparr>))
       [] [] STUDENT None
       \<lparr> query = ''cats'', loading = False, allResults = [], visibleCount = 6,
         error = None, showHistoryView = False, historyFilter = '''' \<rparr>))
     = [''cats'']
   \<and> error (fst (handleSearch (\<lambda>q r. Some ''reply'')
       (\<lambda>t. Some (JObject \<lparr> isValid = Some False, reason = Some ''Off topic.'',
                              suggestedLinks = None \<rparr>))
       [] [] STUDENT None
       \<lparr> query = ''cats'', loading = False, allResults = [], visibleCount = 6,
         error = None, showHistoryView = False, historyFilter = '''' \<rparr>))
     = Some ''Off topic.''
   \<and> historyCalls (snd (handleSearch (\<lambda>q r. Some ''reply'')
       (\<lambda>t. Some (JObject \<lparr> isValid = Some False, reason = Some ''Off topic.'',
                              suggestedLinks = None \<rparr>))
       [] [] STUDENT None
       \<lparr> query = ''cats'', loading = False, allResults = [], visibleCount = 6,
         error = None, showHistoryView = False, historyFilter = '''' \<rparr>))
     = []"
proof -
  let ?s = "\<lparr> query = ''cats'', loading = False, allResults = [], visibleCount = 6,
         error = None, showHistoryView = False, historyFilter = '''' \<rparr>"
  let ?g = "\<lambda>(q::string) (r::UserRole). Some ''reply''"
  let ?r1 = "\<lparr> isValid = Some True, reason = Some ''Fine.'',
              suggestedLinks = (None :: link option list option) \<rparr>"
  let ?r2 = "\<lparr> isValid = Some False, reason = Some ''Off topic.'',
              suggestedLinks = (None :: link option list option) \<rparr>"
  have q: "searchQueryOf None ?s = ''cats''"
    by (simp add: searchQueryOf_def)
  have nb: "trim (searchQueryOf None ?s) \<noteq> []"
    by (simp add: q trim_def isWhiteSpace_def)
  have o1: "validateAndSearch ?g (\<lambda>t::string. Some (JObject ?r1))
              (searchQueryOf None ?s) STUDENT = Resolved (JObject ?r1)"
    and o2: "validateAndSearch ?g (\<lambda>t::string. Some (JObject ?r2))
              (searchQueryOf None ?s) STUDENT = Resolved (JObject ?r2)"
    by (simp_all add: validateAndSearch_def)
  have m1: "suggestedLinks ?r1 = None
            \<or> (\<exists>ls. suggestedLinks ?r1 = Some ls \<and> None \<in> set ls)"
    and m2: "suggestedLinks ?r2 = None
            \<or> (\<exists>ls. suggestedLinks ?r2 = Some ls \<and> None \<in> set ls)"
    by simp_all
  from malformed_reply_fails_generically [OF nb o1 m1, of "[]" "[]"]
       malformed_reply_fails_generically [OF nb o2 m2, of "[]" "[]"]
  show ?thesis by (simp add: q)
qed

text \<open>
  C5, as stated: a search with the role \<^verbatim>\<open>UNSET\<close> is rejected at once. The search
  operation never looks at the role before it calls the oracle: with \<^verbatim>\<open>UNSET\<close> and
  the query \<^verbatim>\<open>cats\<close>, the oracle is called with that role and, the reply being
  valid, the query goes to the history.
\<close>

theorem unset_role_search_counterexample:
  "snd (handleSearch (\<lambda>q r. Some ''reply'')
       (\<lambda>t. Some (JObject \<lparr> isValid = Some True, reason = Some ''Fine.'',
                              suggestedLinks = Some [] \<rparr>))
       [] [] UNSET None
       \<lparr> query = ''cats'', loading = False, allResults = [], visibleCount = 6,
         error = None, showHistoryView = False, historyFilter = '''' \<rparr>)
   = [ValidateAndSearch ''cats'' UNSET, OnAddHistory ''cats'']"
  by (simp add: handleSearch_def Let_def searchQueryOf_def isFalsy_def trim_def
      isWhiteSpace_def validateAndSearch_def mapLinks_def)

text \<open>
  C5, amended: the search operation does not inspect the role. With the role
  \<^verbatim>\<open>UNSET\<close> it returns at once only when the query trims to the empty string;
  otherwise it calls the oracle once, with the role \<^verbatim>\<open>UNSET\<close>, and calls
  \<^verbatim>\<open>onAddHistory\<close> exactly when the query is validated. The role \<^verbatim>\<open>UNSET\<close>
  is refused earlier, at profile setup: \<^verbatim>\<open>handleGuest\<close> and
  \<^verbatim>\<open>handleSubmit\<close> set an error and do not call \<^verbatim>\<open>onComplete\<close> while the
  role is \<^verbatim>\<open>UNSET\<close>.
\<close>

theorem unset_role_checked_at_setup_not_at_search:
  "(trim (searchQueryOf explicitQuery s) = [] \<longrightarrow>
      handleSearch generateContent parse BLOCKED_TLDS BLOCKED_SITES UNSET explicitQuery s
        = (s, []))
   \<and> (trim (searchQueryOf explicitQuery s) \<noteq> [] \<longrightarrow>
      snd (handleSearch generateContent parse BLOCKED_TLDS BLOCKED_SITES UNSET
             explicitQuery s)
        = ValidateAndSearch (searchQueryOf explicitQuery s) UNSET #
          (if validated (validateAndSearch generateContent parse
                           (searchQueryOf explicitQuery s) UNSET)
           then [OnAddHistory (searchQueryOf explicitQuery s)] else []))
   \<and> (ps_role ps = UNSET \<longrightarrow>
      handleGuest ps
        = (ps\<lparr> ps_error := Some ''Please pick a role to continue as guest.'' \<rparr>, [])
      \<and> handleSubmit ps
        = (ps\<lparr> ps_error := Some ''A field must be chosen: Please select a role.'' \<rparr>,
           []))"
  by (simp add: handleSearch_blank handleSearch_effects handleGuest_def handleSubmit_def)

theorem unset_role_checked_at_setup_not_at_search_witness:
  "snd (handleSearch (\<lambda>q r. Some ''reply'') (\<lambda>t. None) [] [] UNSET (Some ''cats'')
       \<lparr> query = '''', loading = False, allResults = [], visibleCount = 6,
         error = None, showHistoryView = False, historyFilter = '''' \<rparr>)
     = [ValidateAndSearch ''cats'' UNSET]
   \<and> handleSearch (\<lambda>q r. Some ''reply'') (\<lambda>t. None) [] [] UNSET (Some '' '')
       \<lparr> query = '''', loading = False, allResults = [], visibleCount = 6,
         error = None, showHistoryView = False, historyFilter = '''' \<rparr>
     = (\<lparr> query = '''', loading = False, allResults = [], visibleCount = 6,
          error = None, showHistoryView = False, historyFilter = '''' \<rparr>, [])
   \<and> snd (handleGuest
       \<lparr> ps_email = '''', ps_name = '''', ps_role = UNSET, ps_password = '''',
         ps_confirmPassword = '''', ps_isKnownUser = False, ps_error = None,
         registeredUsers = [] \<rparr>) = []"
proof -
  let ?s = "\<lparr> query = '''', loading = False, allResults = [], visibleCount = 6,
         error = None, showHistoryView = False, historyFilter = '''' \<rparr>"
  let ?ps = "\<lparr> ps_email = '''', ps_name = '''', ps_role = UNSET, ps_password = '''',
         ps_confirmPassword = '''', ps_isKnownUser = False, ps_error = None,
         registeredUsers = [] \<rparr>"
  let ?g = "\<lambda>(q::string) (r::UserRole). Some ''reply''"
  let ?p = "\<lambda>t::string. (None :: parsed option)"
  have q1: "searchQueryOf (Some ''cats'') ?s = ''cats''"
    and q2: "searchQueryOf (Some '' '') ?s = '' ''"
    by (simp_all add: searchQueryOf_def)
  have nb: "trim (searchQueryOf (Some ''cats'') ?s) \<noteq> []"
    by (simp add: q1 trim_def isWhiteSpace_def)
  have blank: "trim (searchQueryOf (Some '' '') ?s) = []"
    by (simp add: q2 trim_def isWhiteSpace_def)
  have nv: "\<not> validated (validateAndSearch ?g ?p ''cats'' UNSET)"
    by (simp add: validateAndSearch_def validated_def)
  have role: "ps_role ?ps = UNSET" by simp
  from unset_role_checked_at_setup_not_at_search
         [of "Some ''cats''" ?s ?g ?p "[]" "[]" ?ps] nb nv role
  have a: "snd (handleSearch ?g ?p [] [] UNSET (Some ''cats'') ?s)
           = [ValidateAndSearch ''cats'' UNSET]"
    and c: "snd (handleGuest ?ps) = []"
    by (simp_all add: q1)
  from unset_role_checked_at_setup_not_at_search
         [of "Some '' ''" ?s ?g ?p "[]" "[]" ?ps] blank
  have b: "handleSearch ?g ?p [] [] UNSET (Some '' '') ?s = (?s, [])"
    by blast
  from a b c show ?thesis by simp
qed



section \<open>The focus timer: start and countdown\<close>

lemma ticks_Suc:
  "ticks (Suc n) isActive isPaused ts =
     ticks n isActive isPaused
       (fst (tick isActive isPaused (fst ts)), snd ts @ snd (tick isActive isPaused (fst ts)))"
  by (cases ts) (simp split: prod.splits)

lemma ticks_add:
  "ticks (m + n) isActive isPaused ts = ticks n isActive isPaused (ticks m isActive isPaused ts)"
proof (induction m arbitrary: ts)
  case 0
  show ?case by simp
next
  case (Suc m)
  show ?case
    by (simp only: add_Suc ticks_Suc Suc.IH)
qed

lemma ticks_stopped:
  "\<not> intervalAlive isActive isPaused t \<Longrightarrow> ticks n isActive isPaused (t, sigs) = (t, sigs)"
  by (induction n) (simp_all add: tick_def)

lemma tick_running:
  "1 < timeLeft t \<Longrightarrow> tick True False t = (t\<lparr> timeLeft := timeLeft t - 1 \<rparr>, [])"
  by (simp add: tick_def intervalAlive_def)

lemma tick_last:
  "timeLeft t = 1 \<Longrightarrow> tick True False t = (t\<lparr> timeLeft := 0 \<rparr>, [OnTimerEnd])"
  by (simp add: tick_def intervalAlive_def)

text \<open>
  The countdown in general: while the session is active and not paused, \<open>k\<close> seconds
  into a countdown of \<open>n\<close> leave \<open>n - k\<close> and emit nothing as long as \<open>k < n\<close>.
\<close>

lemma ticks_countdown:
  "timeLeft t = int n \<Longrightarrow> k < n \<Longrightarrow>
   ticks k True False (t, sigs) = (t\<lparr> timeLeft := int n - int k \<rparr>, sigs)"
proof (induction k arbitrary: t n)
  case 0
  then show ?case by simp
next
  case (Suc k)
  from Suc.prems have run: "1 < timeLeft t" by simp
  let ?t = "t\<lparr> timeLeft := timeLeft t - 1 \<rparr>"
  from Suc.prems have "timeLeft ?t = int (n - 1)" and "k < n - 1" by simp_all
  from Suc.IH [OF this]
  have "ticks k True False (?t, sigs) = (?t\<lparr> timeLeft := int (n - 1) - int k \<rparr>, sigs)" .
  moreover from Suc.prems have "int (n - 1) - int k = int n - int (Suc k)" by simp
  ultimately show ?case
    by (simp add: tick_running [OF run])
qed

lemma ticks_to_end:
  assumes "timeLeft t = int n" and "0 < n"
  shows "ticks n True False (t, sigs) = (t\<lparr> timeLeft := 0 \<rparr>, sigs @ [OnTimerEnd])"
proof -
  from assms obtain k where n: "n = k + 1" by (cases n) simp_all
  with assms have "ticks k True False (t, sigs) = (t\<lparr> timeLeft := int n - int k \<rparr>, sigs)"
    by (intro ticks_countdown) simp_all
  moreover have "int n - int k = 1" using n by simp
  ultimately have "ticks k True False (t, sigs) = (t\<lparr> timeLeft := 1 \<rparr>, sigs)" by simp
  then show ?thesis
    unfolding n ticks_add by (simp add: tick_last)
qed

text \<open>
  C8. A session started with a total of five seconds and kept active and unpaused: the
  start sets the countdown to 5 and signals the start; the time left after 0, 1, ..., 5
  elapsed seconds is 5, 4, 3, 2, 1, 0; the interval is alive before each of the five
  ticks and dead after the fifth; the end-of-session callback is not called by the
  first four ticks and is called once by the fifth; and no later second calls it again.
\<close>

theorem five_second_session_ends_at_fifth_tick:
  "startWith 5 t = (t\<lparr> initialTotalSeconds := 5, timeLeft := 5 \<rparr>, [OnStartLock])
   \<and> map (\<lambda>k. timeLeft (fst (ticks k True False (startWith 5 t)))) [0, 1, 2, 3, 4, 5]
     = [5, 4, 3, 2, 1, 0]
   \<and> map (\<lambda>k. intervalAlive True False (fst (ticks k True False (startWith 5 t))))
       [0, 1, 2, 3, 4, 5]
     = [True, True, True, True, True, False]
   \<and> map (\<lambda>k. count_list (snd (ticks k True False (startWith 5 t))) OnTimerEnd)
       [0, 1, 2, 3, 4, 5]
     = [0, 0, 0, 0, 0, 1]
   \<and> ticks (5 + n) True False (startWith 5 t) = ticks 5 True False (startWith 5 t)"
proof -
  let ?t = "t\<lparr> initialTotalSeconds := 5, timeLeft := 5 \<rparr>"
  have start: "startWith 5 t = (?t, [OnStartLock])"
    by (simp add: startWith_def)
  have tl: "timeLeft ?t = int 5" by simp
  have run: "ticks k True False (?t, [OnStartLock])
             = (?t\<lparr> timeLeft := 5 - int k \<rparr>, [OnStartLock])" if "k < 5" for k
    using ticks_countdown [OF tl that, of "[OnStartLock]"] by simp
  have fin: "ticks 5 True False (?t, [OnStartLock])
             = (?t\<lparr> timeLeft := 0 \<rparr>, [OnStartLock, OnTimerEnd])"
    using ticks_to_end [OF tl, of "[OnStartLock]"] by simp
  have after: "ticks (5 + n) True False (?t, [OnStartLock])
               = ticks 5 True False (?t, [OnStartLock])"
    unfolding ticks_add fin by (rule ticks_stopped) (simp add: intervalAlive_def)
  have left: "map (\<lambda>k. timeLeft (fst (ticks k True False (?t, [OnStartLock]))))
                [0, 1, 2, 3, 4, 5] = [5, 4, 3, 2, 1, 0]"
    using run [of 0] run [of 1] run [of 2] run [of 3] run [of 4] fin
    by (simp del: ticks.simps)
  have alive: "map (\<lambda>k. intervalAlive True False (fst (ticks k True False (?t, [OnStartLock]))))
                 [0, 1, 2, 3, 4, 5] = [True, True, True, True, True, False]"
    using run [of 0] run [of 1] run [of 2] run [of 3] run [of 4] fin
    by (simp add: intervalAlive_def del: ticks.simps)
  have ends: "map (\<lambda>k. count_list (snd (ticks k True False (?t, [OnStartLock]))) OnTimerEnd)
                [0, 1, 2, 3, 4, 5] = [0, 0, 0, 0, 0, 1]"
    using run [of 0] run [of 1] run [of 2] run [of 3] run [of 4] fin
    by (simp del: ticks.simps)
  from left alive ends after show ?thesis
    unfolding start by (simp only: simp_thms)
qed

theorem five_second_session_ends_at_fifth_tick_witness:
  "timeLeft (fst (ticks 4 True False
       (startWith 5 \<lparr> timeLeft = 0, durationHours = 0, durationMinutes = 25,
                      initialTotalSeconds = 0 \<rparr>))) = 1
   \<and> snd (ticks 4 True False
       (startWith 5 \<lparr> timeLeft = 0, durationHours = 0, durationMinutes = 25,
                      initialTotalSeconds = 0 \<rparr>)) = [OnStartLock]
   \<and> ticks 5 True False
       (startWith 5 \<lparr> timeLeft = 0, durationHours = 0, durationMinutes = 25,
                      initialTotalSeconds = 0 \<rparr>)
     = (\<lparr> timeLeft = 0, durationHours = 0, durationMinutes = 25,
          initialTotalSeconds = 5 \<rparr>, [OnStartLock, OnTimerEnd])
   \<and> map (\<lambda>k. count_list (snd (ticks k True False
       (startWith 5 \<lparr> timeLeft = 0, durationHours = 0, durationMinutes = 25,
                      initialTotalSeconds = 0 \<rparr>))) OnTimerEnd) [0, 1, 2, 3, 4, 5]
     = [0, 0, 0, 0, 0, 1]"
proof -
  let ?t = "\<lparr> timeLeft = 0, durationHours = 0, durationMinutes = 25,
             initialTotalSeconds = 0 \<rparr>"
  have a: "timeLeft (fst (ticks 4 True False (startWith 5 ?t))) = 1"
    and b: "snd (ticks 4 True False (startWith 5 ?t)) = [OnStartLock]"
    and c: "ticks 5 True False (startWith 5 ?t)
            = (\<lparr> timeLeft = 0, durationHours = 0, durationMinutes = 25,
                 initialTotalSeconds = 5 \<rparr>, [OnStartLock, OnTimerEnd])"
    by (simp_all add: startWith_def tick_def intervalAlive_def numeral_eq_Suc)
  from five_second_session_ends_at_fifth_tick [of ?t 0]
  have d: "map (\<lambda>k. count_list (snd (ticks k True False (startWith 5 ?t))) OnTimerEnd)
             [0, 1, 2, 3, 4, 5] = [0, 0, 0, 0, 0, 1]"
    by blast
  from a b c d show ?thesis by blast
qed

text \<open>
  C9. A start whose total is zero or negative does nothing: the state of the timer is
  what it was (no countdown is set up) and the start callback is not called, so the
  parent never activates the session; this is what \<^verbatim>\<open>startTimer\<close> does when the
  hours and minutes chosen add up to such a total, 0 h 0 min for one. No error is
  raised: the timer has no error state.
\<close>

theorem nonpositive_start_is_noop:
  assumes "totalSeconds \<le> 0"
  shows "startWith totalSeconds t = (t, [])
         \<and> ((durationHours t * 3600) + (durationMinutes t * 60) = totalSeconds
              \<longrightarrow> startTimer t = (t, []))"
  using assms by (simp add: startWith_def startTimer_def)

theorem nonpositive_start_is_noop_witness:
  "(0::int) \<le> 0
   \<and> startTimer \<lparr> timeLeft = 0, durationHours = 0, durationMinutes = 0,
                   initialTotalSeconds = 0 \<rparr>
     = (\<lparr> timeLeft = 0, durationHours = 0, durationMinutes = 0,
          initialTotalSeconds = 0 \<rparr>, [])"
proof -
  let ?t = "\<lparr> timeLeft = 0, durationHours = 0, durationMinutes = 0,
             initialTotalSeconds = 0 \<rparr>"
  have h: "(0::int) \<le> 0" by simp
  from nonpositive_start_is_noop [OF h, of ?t] h
  show ?thesis by simp
qed

end
